theory Spec2Isabelle
  imports Complex_Main "HOL-Library.Code_Target_Nat"
begin

section \<open>Decimal arithmetic of the bot (\<open>getcontext().prec = 8\<close>)\<close>

text \<open>
  The bot computes with Python's \<open>decimal.Decimal\<close> under a context of eight significant
  digits (line 13 of \<open>achat_buy_telegram.py\<close>), default rounding (half even) and the default
  traps (invalid operation, division by zero). A finite decimal is a sign, a coefficient and
  an exponent, as \<open>as_tuple()\<close> shows it. Special values (NaN, infinities) and the bounds
  \<open>Emin\<close>/\<open>Emax\<close> = \<open>\<plusminus>999999\<close> of the exponent are outside this model.
\<close>

datatype decimal = Decimal (dsign: bool) (dint: nat) (dexp: int)

datatype error =
    ConversionSyntax
  | ValueError
  | DivisionByZero
  | DivisionUndefined
  | DivisionImpossible
  | InvalidOperation
  | BinanceAPIException
  | OtherException

definition prec :: nat where
  "prec = 8"

text \<open>The number of digits of a coefficient (\<open>len(self._int)\<close>; zero is written \<open>0\<close>).\<close>

fun ndigits :: "nat \<Rightarrow> nat" where
  "ndigits n = (if n < 10 then 1 else Suc (ndigits (n div 10)))"

declare ndigits.simps [simp del]

definition adjusted :: "decimal \<Rightarrow> int" where
  "adjusted d = int (ndigits (dint d)) + dexp d - 1"

text \<open>The number a decimal denotes; \<open>Decimal\<close> comparisons are exact comparisons of it.\<close>

definition dec_val :: "decimal \<Rightarrow> rat" where
  "dec_val d =
     (if dsign d then - 1 else 1) * of_nat (dint d) *
     (if 0 \<le> dexp d then 10 ^ nat (dexp d) else 1 / 10 ^ nat (- dexp d))"

text \<open>Dropping the last \<open>k\<close> digits of a coefficient, rounding half to even.\<close>

definition round_half_even :: "nat \<Rightarrow> nat \<Rightarrow> nat" where
  "round_half_even c k =
     (let q = c div 10 ^ k; r = c mod 10 ^ k
      in if 10 ^ k < 2 * r \<or> (2 * r = 10 ^ k \<and> odd q) then q + 1 else q)"

text \<open>\<open>Decimal._fix\<close>: round a result to the precision of the context.\<close>

definition fix_dec :: "decimal \<Rightarrow> decimal" where
  "fix_dec d =
     (let n = ndigits (dint d)
      in if dint d = 0 \<or> n \<le> prec then d
         else
           (let k = n - prec; c = round_half_even (dint d) k
            in if prec < ndigits c
               then Decimal (dsign d) (c div 10) (dexp d + int k + 1)
               else Decimal (dsign d) c (dexp d + int k)))"

text \<open>\<open>a * b\<close>\<close>

definition dec_mul :: "decimal \<Rightarrow> decimal \<Rightarrow> decimal" where
  "dec_mul a b = fix_dec (Decimal (dsign a \<noteq> dsign b) (dint a * dint b) (dexp a + dexp b))"


text \<open>
  \<open>a // b\<close>: the integer part of the quotient, exact, or \<open>DivisionImpossible\<close> when it has
  more digits than the precision.
\<close>

definition dec_floordiv :: "decimal \<Rightarrow> decimal \<Rightarrow> error + decimal" where
  "dec_floordiv a b =
     (if dint b = 0 then (if dint a \<noteq> 0 then Inl DivisionByZero else Inl DivisionUndefined)
      else
        (let sign = (dsign a \<noteq> dsign b); expdiff = adjusted a - adjusted b
         in if dint a = 0 \<or> expdiff \<le> - 2 then Inr (Decimal sign 0 0)
            else if expdiff \<le> int prec then
              (let q = (if dexp b \<le> dexp a
                        then (dint a * 10 ^ nat (dexp a - dexp b)) div dint b
                        else dint a div (dint b * 10 ^ nat (dexp b - dexp a)))
               in if q < 10 ^ prec then Inr (Decimal sign q 0) else Inl DivisionImpossible)
            else Inl DivisionImpossible))"

text \<open>
  \<open>a / b\<close>: an exact quotient is brought as close to the ideal exponent as its trailing zeros
  allow; an inexact one keeps \<open>prec + 1\<close> or more digits with a sticky last digit, and is rounded.
\<close>

function reduce_exact :: "nat \<Rightarrow> int \<Rightarrow> int \<Rightarrow> nat \<times> int" where
  "reduce_exact coeff e ideal =
     (if e < ideal \<and> coeff mod 10 = 0 then reduce_exact (coeff div 10) (e + 1) ideal
      else (coeff, e))"
  by pat_completeness auto
termination
  by (relation "measure (\<lambda>(coeff, e, ideal). nat (ideal - e))") auto

declare reduce_exact.simps [simp del]

definition dec_truediv :: "decimal \<Rightarrow> decimal \<Rightarrow> error + decimal" where
  "dec_truediv a b =
     (if dint b = 0 then (if dint a = 0 then Inl DivisionUndefined else Inl DivisionByZero)
      else if dint a = 0 then Inr (fix_dec (Decimal (dsign a \<noteq> dsign b) 0 (dexp a - dexp b)))
      else
        (let sign = (dsign a \<noteq> dsign b);
             shift = int (ndigits (dint b)) - int (ndigits (dint a)) + int prec + 1;
             e = dexp a - dexp b - shift;
             num = (if 0 \<le> shift then dint a * 10 ^ nat shift else dint a);
             den = (if 0 \<le> shift then dint b else dint b * 10 ^ nat (- shift));
             coeff = num div den;
             remainder = num mod den
         in if remainder \<noteq> 0
            then Inr (fix_dec (Decimal sign (if coeff mod 5 = 0 then coeff + 1 else coeff) e))
            else (case reduce_exact coeff e (dexp a - dexp b) of
                    (c, e') \<Rightarrow> Inr (fix_dec (Decimal sign c e')))))"

text \<open>
  \<open>a.quantize(b)\<close>: \<open>a\<close> at the exponent of \<open>b\<close>, or \<open>InvalidOperation\<close> when the result would
  have more digits than the precision.
\<close>

definition rescale :: "decimal \<Rightarrow> int \<Rightarrow> decimal" where
  "rescale d e =
     (if dint d = 0 then Decimal (dsign d) 0 e
      else if e \<le> dexp d then Decimal (dsign d) (dint d * 10 ^ nat (dexp d - e)) e
      else Decimal (dsign d) (round_half_even (dint d) (nat (e - dexp d))) e)"

definition quantize :: "decimal \<Rightarrow> decimal \<Rightarrow> error + decimal" where
  "quantize a b =
     (if dint a = 0 then Inr (fix_dec (Decimal (dsign a) 0 (dexp b)))
      else if int prec < adjusted a - dexp b + 1 then Inl InvalidOperation
      else
        (let ans = rescale a (dexp b)
         in if prec < ndigits (dint ans) then Inl InvalidOperation else Inr (fix_dec ans)))"

section \<open>String operations\<close>

text \<open>\<open>str.upper\<close>, \<open>str.endswith\<close>, \<open>str.startswith\<close>, \<open>str.replace(old, '')\<close> and
  \<open>str.split(sep)\<close> on ASCII text.\<close>

definition upper_char :: "char \<Rightarrow> char" where
  "upper_char c =
     (case map_of (zip ''abcdefghijklmnopqrstuvwxyz'' ''ABCDEFGHIJKLMNOPQRSTUVWXYZ'') c of
        Some C \<Rightarrow> C
      | None \<Rightarrow> c)"

definition upper :: "string \<Rightarrow> string" where
  "upper s = map upper_char s"

definition endswith :: "string \<Rightarrow> string \<Rightarrow> bool" where
  "endswith s suf = (length suf \<le> length s \<and> drop (length s - length suf) s = suf)"

definition startswith :: "string \<Rightarrow> string \<Rightarrow> bool" where
  "startswith s pre = (take (length pre) s = pre)"

function replace_empty :: "string \<Rightarrow> string \<Rightarrow> string" where
  "replace_empty old [] = []"
| "replace_empty old (c # cs) =
     (if old \<noteq> [] \<and> startswith (c # cs) old
      then replace_empty old (drop (length old) (c # cs))
      else c # replace_empty old cs)"
  by pat_completeness auto
termination
  by (relation "measure (\<lambda>(old, s). length s)") (auto simp: neq_Nil_conv)

fun split :: "char \<Rightarrow> string \<Rightarrow> string list" where
  "split sep [] = [[]]"
| "split sep (c # cs) =
     (if c = sep then [] # split sep cs
      else (case split sep cs of ps # pss \<Rightarrow> (c # ps) # pss | [] \<Rightarrow> [[c]]))"

section \<open>The exchange, the pending orders and the messages\<close>

text \<open>
  \<open>pending_orders\<close> (line 26) is a dictionary from user ids to the order awaiting
  confirmation (lines 199 to 203).
\<close>

record pending_order =
  pair :: string
  quantity :: decimal
  is_buy :: bool

text \<open>The \<open>LOT_SIZE\<close> rule that \<open>check_symbol_rules\<close> returns, and the filters of a symbol.\<close>

record rules =
  min_qty :: decimal
  step_size :: decimal

record symbol_filter =
  filterType :: string
  minQty :: decimal
  stepSize :: decimal

text \<open>
  The order the exchange reports: \<open>fills = None\<close> is a response without the key \<open>fills\<close>,
  a fill is its \<open>price\<close>, if it has one.
\<close>

record order_response =
  symbol :: string
  executedQty :: string
  cummulativeQuoteQty :: string
  fills :: "string option list option"

text \<open>
  Every request the bot sends to the exchange client. An order is recorded with the decimal
  quantity that line 152 or 156 hands to \<open>float\<close>; the conversion to a binary float is outside
  the model.
\<close>

datatype call =
    GetSymbolTicker string
  | GetAssetBalance string
  | GetAccount
  | GetSymbolInfo string
  | OrderMarketBuy string decimal
  | OrderMarketSell string decimal

text \<open>
  The exchange client is a collaborator outside the repository. Its answer to a request may
  depend on everything requested before (the first argument, the history of calls), and it
  may raise: \<open>Inl\<close>. A ticker answer is the \<open>price\<close> field as a decimal, a balance answer the
  \<open>free\<close> field; an answer that does not convert to a decimal counts as a raise.
\<close>

record exchange =
  get_symbol_ticker :: "call list \<Rightarrow> string \<Rightarrow> error + decimal"
  client_get_asset_balance :: "call list \<Rightarrow> string \<Rightarrow> error + decimal"
  get_account :: "call list \<Rightarrow> error + (string \<times> decimal) list"
  get_symbol_info :: "call list \<Rightarrow> string \<Rightarrow> error + symbol_filter list option"
  order_market :: "call list \<Rightarrow> bool \<Rightarrow> string \<Rightarrow> decimal \<Rightarrow> error + order_response"

text \<open>What \<open>execute_trade\<close> returns beside \<open>None\<close> when no order was placed.\<close>

datatype trade_error =
    RulesUnavailable
  | QuantityTooSmall decimal
  | BinanceError
  | OtherError error

text \<open>The messages the handlers send, by content.\<close>

datatype reply =
    Usage bool
  | UnsupportedPair
  | InsufficientBalance decimal string
  | ConfirmationPrompt string decimal decimal decimal bool
  | InvalidAmount
  | ErrorReply error
  | Processing
  | TradeSuccess string bool string "string option" string
  | TradeFailed trade_error
  | Expired
  | Cancelled

text \<open>The state the handlers act on: the dictionary, the requests sent so far, the messages sent so far.\<close>

record world =
  pending_orders :: "int \<rightharpoonup> pending_order"
  calls :: "call list"
  replies :: "reply list"

definition send :: "reply \<Rightarrow> world \<Rightarrow> world" where
  "send r w = w\<lparr>replies := replies w @ [r]\<rparr>"

definition request :: "call \<Rightarrow> world \<Rightarrow> world" where
  "request c w = w\<lparr>calls := calls w @ [c]\<rparr>"

definition stablecoins :: "string list" where
  "stablecoins = [''USDT'', ''USDC'']"

section \<open>Balances\<close>

text \<open>\<open>get_asset_balance\<close> (lines 39 to 46): any failure of the lookup gives zero.\<close>

definition get_asset_balance :: "exchange \<Rightarrow> string \<Rightarrow> world \<Rightarrow> decimal \<times> world" where
  "get_asset_balance ex asset w =
     (case client_get_asset_balance ex (calls w) asset of
        Inr free \<Rightarrow> (free, request (GetAssetBalance asset) w)
      | Inl e \<Rightarrow> (Decimal False 0 0, request (GetAssetBalance asset) w))"

record balance_entry =
  asset :: string
  free :: decimal
  usdt_value :: decimal





section \<open>Executing a trade\<close>

text \<open>
  \<open>check_symbol_rules\<close> (lines 117 to 131): no rules when the lookup raises, when the symbol is
  unknown, or when no filter is the \<open>LOT_SIZE\<close> filter (\<open>next\<close> raises \<open>StopIteration\<close>, caught).
  The fields \<open>minQty\<close> and \<open>stepSize\<close> of a filter of another type are not read; those of
  the \<open>LOT_SIZE\<close> filter are taken as decimals the exchange wrote well.
\<close>

definition check_symbol_rules :: "exchange \<Rightarrow> string \<Rightarrow> world \<Rightarrow> rules option \<times> world" where
  "check_symbol_rules ex p w =
     (case get_symbol_info ex (calls w) p of
        Inl e \<Rightarrow> (None, request (GetSymbolInfo p) w)
      | Inr None \<Rightarrow> (None, request (GetSymbolInfo p) w)
      | Inr (Some filters) \<Rightarrow>
          (case find (\<lambda>f. filterType f = ''LOT_SIZE'') filters of
             None \<Rightarrow> (None, request (GetSymbolInfo p) w)
           | Some lot_size \<Rightarrow>
               (Some \<lparr>min_qty = minQty lot_size, step_size = stepSize lot_size\<rparr>,
                request (GetSymbolInfo p) w)))"

text \<open>
  Lines 141 to 146 of \<open>execute_trade\<close>: the quantity is cut down to a multiple of the step
  size and written with the digits of the step size; a decimal operation that raises ends
  in the handler of line 162.
\<close>

definition adjust :: "decimal \<Rightarrow> rules \<Rightarrow> trade_error + decimal" where
  "adjust q r =
     (let precision = nat \<bar>dexp (step_size r)\<bar>
      in case dec_floordiv q (step_size r) of
           Inl e \<Rightarrow> Inl (OtherError e)
         | Inr n \<Rightarrow>
             (case quantize (dec_mul n (step_size r)) (Decimal False 1 (- int precision)) of
                Inl e \<Rightarrow> Inl (OtherError e)
              | Inr adjusted_qty \<Rightarrow>
                  if dec_val adjusted_qty < dec_val (min_qty r)
                  then Inl (QuantityTooSmall (min_qty r))
                  else Inr adjusted_qty))"

definition order_call :: "bool \<Rightarrow> string \<Rightarrow> decimal \<Rightarrow> call" where
  "order_call b p q = (if b then OrderMarketBuy p q else OrderMarketSell p q)"

text \<open>\<open>execute_trade\<close> (lines 133 to 163).\<close>

definition execute_trade ::
  "exchange \<Rightarrow> string \<Rightarrow> decimal \<Rightarrow> bool \<Rightarrow> world \<Rightarrow> (trade_error + order_response) \<times> world" where
  "execute_trade ex p q b w =
     (case check_symbol_rules ex p w of
        (None, w1) \<Rightarrow> (Inl RulesUnavailable, w1)
      | (Some r, w1) \<Rightarrow>
          (case adjust q r of
             Inl err \<Rightarrow> (Inl err, w1)
           | Inr adjusted_qty \<Rightarrow>
               (case order_market ex (calls w1) b p adjusted_qty of
                  Inr order \<Rightarrow> (Inr order, request (order_call b p adjusted_qty) w1)
                | Inl e \<Rightarrow>
                    (Inl (if e = BinanceAPIException then BinanceError else OtherError e),
                     request (order_call b p adjusted_qty) w1))))"

section \<open>The buy and sell commands\<close>

text \<open>The two \<open>except\<close> clauses of \<open>confirm_trade\<close> (lines 225 to 229).\<close>

definition on_exception :: "error \<Rightarrow> world \<Rightarrow> world" where
  "on_exception e w = (if e = ValueError then send InvalidAmount w else send (ErrorReply e) w)"

text \<open>Line 191: the asset of a sale is the pair without the stablecoin codes.\<close>

definition base_asset :: "string \<Rightarrow> string" where
  "base_asset p = replace_empty ''USDC'' (replace_empty ''USDT'' p)"

text \<open>
  Lines 198 to 223: the order is recorded, then the price is read again for the prompt.
  The prompt shows the quantity normalised and the total at two decimals.
\<close>

definition record_and_prompt :: "exchange \<Rightarrow> int \<Rightarrow> string \<Rightarrow> decimal \<Rightarrow> bool \<Rightarrow> world \<Rightarrow> world" where
  "record_and_prompt ex uid p q b w =
     (let w1 = w\<lparr>pending_orders := (pending_orders w)(uid \<mapsto> \<lparr>pair = p, quantity = q, is_buy = b\<rparr>)\<rparr>
      in case get_symbol_ticker ex (calls w1) p of
           Inl e \<Rightarrow> on_exception e (request (GetSymbolTicker p) w1)
         | Inr price \<Rightarrow>
             (case quantize (dec_mul q price) (Decimal False 1 (- 2)) of
                Inl e \<Rightarrow> on_exception e (request (GetSymbolTicker p) w1)
              | Inr total_usd \<Rightarrow>
                  send (ConfirmationPrompt p q price total_usd b) (request (GetSymbolTicker p) w1)))"

text \<open>
  \<open>confirm_trade\<close> (lines 165 to 229). \<open>Decimal_str\<close> is the constructor \<open>Decimal\<close> on the text
  of the first argument, a library function taken as a parameter.
\<close>

definition confirm_trade ::
  "exchange \<Rightarrow> (string \<Rightarrow> error + decimal) \<Rightarrow> int \<Rightarrow> string list \<Rightarrow> bool \<Rightarrow> world \<Rightarrow> world" where
  "confirm_trade ex Decimal_str uid args b w =
     (if length args \<noteq> 2 then send (Usage b) w
      else
        (case Decimal_str (args ! 0) of
           Inl e \<Rightarrow> on_exception e w
         | Inr amount \<Rightarrow>
             (let p = upper (args ! 1)
              in if \<not> list_ex (\<lambda>coin. endswith p coin) stablecoins then send UnsupportedPair w
                 else if b then
                   (case get_symbol_ticker ex (calls w) p of
                      Inl e \<Rightarrow> on_exception e (request (GetSymbolTicker p) w)
                    | Inr price \<Rightarrow>
                        (case dec_truediv amount price of
                           Inl e \<Rightarrow> on_exception e (request (GetSymbolTicker p) w)
                         | Inr q \<Rightarrow> record_and_prompt ex uid p q b (request (GetSymbolTicker p) w)))
                 else
                   (case get_asset_balance ex (base_asset p) w of
                      (balance, w1) \<Rightarrow>
                        if dec_val balance < dec_val amount
                        then send (InsufficientBalance balance (base_asset p)) w1
                        else record_and_prompt ex uid p amount b w1))))"


definition sell_command :: "exchange \<Rightarrow> (string \<Rightarrow> error + decimal) \<Rightarrow> int \<Rightarrow> string list \<Rightarrow> world \<Rightarrow> world" where
  "sell_command ex Decimal_str uid args w = confirm_trade ex Decimal_str uid args False w"

section \<open>The buttons\<close>

text \<open>
  Lines 260 to 272: the report of an order. With an empty list of fills, \<open>fills[0]\<close> raises and
  no further message is sent.
\<close>

definition report :: "pending_order \<Rightarrow> trade_error + order_response \<Rightarrow> world \<Rightarrow> world" where
  "report order_data res w =
     (case res of
        Inl err \<Rightarrow> send (TradeFailed err) w
      | Inr order \<Rightarrow>
          (case fills order of
             None \<Rightarrow>
               send (TradeSuccess (symbol order) (is_buy order_data) (executedQty order) None
                      (cummulativeQuoteQty order)) w
           | Some [] \<Rightarrow> w
           | Some (fill # others) \<Rightarrow>
               send (TradeSuccess (symbol order) (is_buy order_data) (executedQty order) fill
                      (cummulativeQuoteQty order)) w))"

text \<open>
  \<open>handle_button\<close> (lines 239 to 278). The data of a button starts with \<open>confirm_\<close> or is
  \<open>cancel\<close>; \<open>data.split("_")[1]\<close> exists whenever the data starts with \<open>confirm_\<close>.
\<close>

definition handle_button :: "exchange \<Rightarrow> int \<Rightarrow> string \<Rightarrow> world \<Rightarrow> world" where
  "handle_button ex user_id data w =
     (if startswith data ''confirm_'' then
        (let p = split (CHR ''_'') data ! 1
         in case pending_orders w user_id of
              None \<Rightarrow> send Expired w
            | Some order_data \<Rightarrow>
                if pair order_data = p then
                  (case execute_trade ex (pair order_data) (quantity order_data)
                          (is_buy order_data) (send Processing w) of
                     (res, w1) \<Rightarrow> report order_data res w1)
                else send Expired w)
      else if data = ''cancel'' then
        send Cancelled (w\<lparr>pending_orders := (pending_orders w)(user_id := None)\<rparr>)
      else w)"

text \<open>The orders that reached the exchange, in the history of calls.\<close>

fun is_order :: "call \<Rightarrow> bool" where
  "is_order (OrderMarketBuy p q) = True"
| "is_order (OrderMarketSell p q) = True"
| "is_order c = False"

definition orders_sent :: "world \<Rightarrow> call list" where
  "orders_sent w = filter is_order (calls w)"

section \<open>A sample exchange\<close>

text \<open>
  A fixed exchange on which the statements below are run: BTCUSDT trades at 50000 and ETHUSDC
  at 2000, no other pair has a price; the account holds USDT, ETH, a negligible amount of BTC
  and an asset XYZ without a market; every symbol has a lot size of 0.0001.
\<close>

definition sample_filters :: "decimal \<Rightarrow> decimal \<Rightarrow> symbol_filter list" where
  "sample_filters m s =
     [\<lparr>filterType = ''PRICE_FILTER'', minQty = Decimal False 0 0, stepSize = Decimal False 0 0\<rparr>,
      \<lparr>filterType = ''LOT_SIZE'', minQty = m, stepSize = s\<rparr>]"

definition sample_order :: "string \<Rightarrow> order_response" where
  "sample_order s =
     \<lparr>symbol = s, executedQty = ''0.00200000'', cummulativeQuoteQty = ''100.00000000'',
      fills = Some [Some ''50000.00000000'']\<rparr>"

definition sample_exchange :: exchange where
  "sample_exchange =
     \<lparr>get_symbol_ticker =
        (\<lambda>h s. if s = ''BTCUSDT'' then Inr (Decimal False 50000 0)
               else if s = ''ETHUSDC'' then Inr (Decimal False 2000 0)
               else Inl BinanceAPIException),
      client_get_asset_balance =
        (\<lambda>h a. if a = ''ETH'' then Inr (Decimal False 3 (- 1)) else Inl OtherException),
      get_account =
        (\<lambda>h. Inr [(''XYZ'', Decimal False 12 0), (''ETH'', Decimal False 3 (- 1)),
                  (''BTC'', Decimal False 5 (- 5)), (''USDT'', Decimal False 250 0)]),
      get_symbol_info =
        (\<lambda>h s. Inr (Some (sample_filters (Decimal False 1 (- 4)) (Decimal False 1 (- 4))))),
      order_market = (\<lambda>h b s q. Inr (sample_order s))\<rparr>"

text \<open>The same exchange with the lot size written with eight decimals, \<open>0.00010000\<close>.\<close>

definition sample_exchange8 :: exchange where
  "sample_exchange8 =
     sample_exchange
       \<lparr>get_symbol_info :=
          (\<lambda>h s. Inr (Some (sample_filters (Decimal False 10000 (- 8)) (Decimal False 10000 (- 8)))))\<rparr>"


definition sample_Decimal :: "string \<Rightarrow> error + decimal" where
  "sample_Decimal s =
     (if s = ''100'' then Inr (Decimal False 100 0)
      else if s = ''0.5'' then Inr (Decimal False 5 (- 1))
      else if s = ''0.1'' then Inr (Decimal False 1 (- 1))
      else Inl ConversionSyntax)"

definition world0 :: world where
  "world0 = \<lparr>pending_orders = Map.empty, calls = [], replies = []\<rparr>"

definition sample_pending :: pending_order where
  "sample_pending = \<lparr>pair = ''BTCUSDT'', quantity = Decimal False 2 (- 3), is_buy = True\<rparr>"

definition world1 :: world where
  "world1 = \<lparr>pending_orders = [7 \<mapsto> sample_pending], calls = [], replies = []\<rparr>"

section \<open>Basic facts about the state\<close>

lemma send_fields [simp]:
  "pending_orders (send r w) = pending_orders w"
  "calls (send r w) = calls w"
  "replies (send r w) = replies w @ [r]"
  by (simp_all add: send_def)

lemma request_fields [simp]:
  "pending_orders (request c w) = pending_orders w"
  "calls (request c w) = calls w @ [c]"
  "replies (request c w) = replies w"
  by (simp_all add: request_def)

lemma check_symbol_rules_world:
  "check_symbol_rules ex p w = (r, w') \<Longrightarrow> w' = request (GetSymbolInfo p) w"
  by (auto simp: check_symbol_rules_def split: sum.splits option.splits)

lemma execute_trade_pending:
  "execute_trade ex p q b w = (res, w') \<Longrightarrow> pending_orders w' = pending_orders w"
  by (auto simp: execute_trade_def dest!: check_symbol_rules_world
           split: prod.splits option.splits sum.splits)

lemma report_pending [simp]: "pending_orders (report od res w) = pending_orders w"
  by (simp add: report_def split: sum.splits option.splits list.splits)

text \<open>No branch of the confirm action writes to the dictionary.\<close>

lemma confirm_leaves_pending:
  "startswith data ''confirm_'' \<Longrightarrow>
     pending_orders (handle_button ex u data w) = pending_orders w"
  by (auto simp: handle_button_def Let_def dest: execute_trade_pending
           split: option.splits prod.splits)

text \<open>The pair a confirm button carries is read back by \<open>split\<close> when it has no underscore.\<close>

lemma split_no_sep: "sep \<notin> set s \<Longrightarrow> split sep s = [s]"
  by (induction s) auto

lemma split_at_sep: "sep \<notin> set a \<Longrightarrow> split sep (a @ sep # b) = a # split sep b"
  by (induction a) auto

lemma split_confirm:
  assumes "CHR ''_'' \<notin> set p"
  shows "split (CHR ''_'') (''confirm_'' @ p) ! 1 = p"
proof -
  have "split (CHR ''_'') (''confirm'' @ CHR ''_'' # p) = ''confirm'' # split (CHR ''_'') p"
    by (rule split_at_sep) simp
  then show ?thesis
    using assms by (simp add: split_no_sep)
qed

section \<open>Facts about the decimal arithmetic\<close>

text \<open>The value of a decimal with a power of an integer exponent.\<close>

lemma dec_val_powi:
  "dec_val d = (if dsign d then - 1 else 1) * of_nat (dint d) * (10::rat) powi dexp d"
  by (simp add: dec_val_def power_int_def field_simps power_inverse)

text \<open>A coefficient of \<open>n\<close> digits lies between \<open>10 ^ (n - 1)\<close> and \<open>10 ^ n\<close>.\<close>

lemma ndigits_pos: "0 < ndigits c"
  by (subst ndigits.simps) simp

lemma ndigits_upper: "c < 10 ^ ndigits c"
proof (induction c rule: ndigits.induct)
  case (1 n)
  show ?case
  proof (cases "n < 10")
    case True
    then show ?thesis by (subst ndigits.simps) simp
  next
    case False
    with 1 have "n div 10 < 10 ^ ndigits (n div 10)" by simp
    then have "n < 10 * 10 ^ ndigits (n div 10)" by simp
    with False show ?thesis by (subst ndigits.simps) simp
  qed
qed

lemma ndigits_lower: "0 < c \<Longrightarrow> 10 ^ (ndigits c - 1) \<le> c"
proof (induction c rule: ndigits.induct)
  case (1 n)
  show ?case
  proof (cases "n < 10")
    case True
    with 1 show ?thesis by (subst ndigits.simps) simp
  next
    case False
    then have "0 < n div 10" by simp
    with 1 False have "10 ^ (ndigits (n div 10) - 1) \<le> n div 10" by simp
    then have "10 * 10 ^ (ndigits (n div 10) - 1) \<le> n" by simp
    moreover have "ndigits n = Suc (ndigits (n div 10))"
      using False by (subst ndigits.simps) simp
    moreover have "0 < ndigits (n div 10)" by (rule ndigits_pos)
    ultimately show ?thesis by (cases "ndigits (n div 10)") simp_all
  qed
qed

lemma ndigits_le:
  assumes "c < 10 ^ n" and "0 < n"
  shows "ndigits c \<le> n"
proof (rule ccontr)
  assume "\<not> ndigits c \<le> n"
  then have n: "n \<le> ndigits c - 1" by simp
  show False
  proof (cases "c = 0")
    case True
    then have "ndigits c = 1" by (subst ndigits.simps) simp
    with n assms show False by simp
  next
    case False
    then have lo: "10 ^ (ndigits c - 1) \<le> c" by (intro ndigits_lower) simp
    have "(10::nat) ^ n \<le> 10 ^ (ndigits c - 1)"
      using n by (intro power_increasing) simp_all
    then have "10 ^ n \<le> c" using lo by (rule order_trans)
    with assms(1) show False by linarith
  qed
qed

lemma ndigits_ge:
  assumes "10 ^ n \<le> c"
  shows "n < ndigits c"
proof -
  have "(10::nat) ^ n < 10 ^ ndigits c"
    using assms ndigits_upper [of c] by (rule le_less_trans)
  then show ?thesis by simp
qed

text \<open>Rounding to the precision: nothing happens to a short coefficient; a long one comes back
  with exactly eight digits and a greater exponent.\<close>

lemma fix_dec_small: "ndigits (dint d) \<le> prec \<Longrightarrow> fix_dec d = d"
  by (simp add: fix_dec_def)

lemma fix_dec_zero: "dint d = 0 \<Longrightarrow> fix_dec d = d"
  by (simp add: fix_dec_def)

lemma round_half_even_cases:
  "round_half_even c k = c div 10 ^ k \<or> round_half_even c k = c div 10 ^ k + 1"
  by (simp add: round_half_even_def Let_def)

lemma fix_dec_rounded:
  assumes "prec < ndigits (dint d)"
  shows "dint (fix_dec d) \<noteq> 0 \<and> ndigits (dint (fix_dec d)) = prec \<and> dexp d < dexp (fix_dec d)"
proof -
  define c where "c = dint d"
  define k where "k = ndigits c - prec"
  define r where "r = round_half_even c k"
  have k: "0 < k" "ndigits c = 8 + k" "ndigits c - 1 = 7 + k"
    using assms by (simp_all add: k_def c_def prec_def)
  have c0: "0 < c"
  proof (rule ccontr)
    assume "\<not> 0 < c"
    then have "ndigits c = 1" by (subst ndigits.simps) simp
    with k show False by simp
  qed
  have "10 ^ 7 * 10 ^ k \<le> c"
    using ndigits_lower [OF c0] k by (simp add: power_add)
  then have lo: "10 ^ 7 \<le> c div 10 ^ k"
    by (simp add: less_eq_div_iff_mult_less_eq)
  have "c < 10 ^ 8 * 10 ^ k"
    using ndigits_upper [of c] k by (simp add: power_add)
  then have hi: "c div 10 ^ k < 10 ^ 8"
    by (simp add: div_less_iff_less_mult)
  have r: "10 ^ 7 \<le> r" "r \<le> 10 ^ 8"
    using round_half_even_cases [of c k] lo hi by (auto simp: r_def)
  have fd: "fix_dec d =
      (if prec < ndigits r then Decimal (dsign d) (r div 10) (dexp d + int k + 1)
       else Decimal (dsign d) r (dexp d + int k))"
    using assms c0 by (simp add: fix_dec_def Let_def c_def k_def r_def)
  show ?thesis
  proof (cases "prec < ndigits r")
    case True
    have "\<not> r < 10 ^ 8"
    proof
      assume "r < 10 ^ 8"
      then have "ndigits r \<le> 8" by (rule ndigits_le) simp
      with True show False by (simp add: prec_def)
    qed
    with r have "r = 10 ^ 8" by simp
    then have "r div 10 = 10000000" by simp
    moreover have "ndigits 10000000 = 8" by (simp add: ndigits.simps)
    ultimately show ?thesis using True fd by (simp add: prec_def)
  next
    case False
    have "7 < ndigits r" using r(1) by (rule ndigits_ge)
    with False have "ndigits r = prec" by (simp add: prec_def)
    moreover have "r \<noteq> 0" using r(1) by auto
    ultimately show ?thesis using False fd k by simp
  qed
qed

lemma powi_split:
  assumes "b \<le> a"
  shows "(10::rat) powi a = 10 ^ nat (a - b) * 10 powi b"
proof -
  have "(10::rat) powi (a - b + b) = 10 powi (a - b) * 10 powi b"
    by (rule power_int_add) simp
  moreover have "(10::rat) powi (a - b) = 10 ^ nat (a - b)"
    using assms by (simp add: power_int_def)
  ultimately show ?thesis by simp
qed

lemma dec_val_nonneg: "\<not> dsign d \<Longrightarrow> dec_val d = of_nat (dint d) * 10 powi dexp d"
  by (simp add: dec_val_powi)

text \<open>\<open>q // s\<close>, when it does not raise, is the number of whole steps in \<open>q\<close>.\<close>

lemma floordiv_bounds:
  assumes q: "\<not> dsign q" and s: "\<not> dsign s" and s0: "dint s \<noteq> 0"
    and fd: "dec_floordiv q s = Inr N"
  shows "\<exists>n. N = Decimal False n 0 \<and> of_nat n * dec_val s \<le> dec_val q
             \<and> dec_val q < (of_nat n + 1) * dec_val s"
proof -
  have vq: "dec_val q = of_nat (dint q) * 10 powi dexp q" using q by (rule dec_val_nonneg)
  have vs: "dec_val s = of_nat (dint s) * 10 powi dexp s" using s by (rule dec_val_nonneg)
  have spos: "0 < dec_val s" using s0 by (simp add: vs)
  show ?thesis
  proof (cases "dint q = 0 \<or> adjusted q - adjusted s \<le> - 2")
    case True
    then have N: "N = Decimal False 0 0"
      using fd q s s0 by (simp add: dec_floordiv_def Let_def)
    have "dec_val q < dec_val s"
    proof (cases "dint q = 0")
      case True
      then show ?thesis using spos by (simp add: vq)
    next
      case False
      with True have ad: "adjusted q + 1 \<le> adjusted s" by simp
      have "(of_nat (dint q) :: rat) < of_nat (10 ^ ndigits (dint q))"
        using ndigits_upper [of "dint q"] by (simp only: of_nat_less_iff)
      then have "(of_nat (dint q) :: rat) < 10 powi int (ndigits (dint q))" by simp
      then have "dec_val q < 10 powi int (ndigits (dint q)) * 10 powi dexp q"
        unfolding vq by (rule mult_strict_right_mono) simp
      also have "\<dots> = 10 powi (adjusted q + 1)"
        by (simp add: adjusted_def power_int_add)
      also have "\<dots> \<le> 10 powi adjusted s"
        using ad by (intro power_int_increasing) simp_all
      also have "\<dots> = 10 powi int (ndigits (dint s) - 1) * 10 powi dexp s"
      proof -
        have "adjusted s = int (ndigits (dint s) - 1) + dexp s"
          using ndigits_pos [of "dint s"] by (simp add: adjusted_def)
        then show ?thesis by (simp add: power_int_add)
      qed
      also have "\<dots> \<le> dec_val s"
      proof -
        have "(of_nat (10 ^ (ndigits (dint s) - 1)) :: rat) \<le> of_nat (dint s)"
          using ndigits_lower [of "dint s"] s0 by (simp only: of_nat_le_iff)
        then have "(10::rat) powi int (ndigits (dint s) - 1) \<le> of_nat (dint s)" by simp
        then show ?thesis unfolding vs by (rule mult_right_mono) simp
      qed
      finally show ?thesis .
    qed
    moreover have "0 \<le> dec_val q" by (simp add: vq)
    ultimately show ?thesis using N by simp
  next
    case False
    then have nz: "dint q \<noteq> 0" and ed: "\<not> adjusted q - adjusted s \<le> - 2" by simp_all
    show ?thesis
    proof (cases "dexp s \<le> dexp q")
      case True
      define d where "d = nat (dexp q - dexp s)"
      define n where "n = (dint q * 10 ^ d) div dint s"
      have N: "N = Decimal False n 0"
        using fd q s s0 nz ed True
        by (simp add: dec_floordiv_def Let_def n_def d_def split: if_splits)
      have e: "(10::rat) powi dexp q = 10 ^ d * 10 powi dexp s"
        unfolding d_def using True by (rule powi_split)
      have "n * dint s \<le> dint q * 10 ^ d" by (simp add: n_def)
      then have "(of_nat (n * dint s) :: rat) \<le> of_nat (dint q * 10 ^ d)"
        by (simp only: of_nat_le_iff)
      then have "(of_nat n * of_nat (dint s) :: rat) \<le> of_nat (dint q) * 10 ^ d" by simp
      then have "of_nat n * of_nat (dint s) * 10 powi dexp s
                   \<le> of_nat (dint q) * 10 ^ d * (10::rat) powi dexp s"
        by (rule mult_right_mono) simp
      then have lo: "of_nat n * dec_val s \<le> dec_val q"
        by (simp add: vq vs e mult.assoc)
      have "dint q * 10 ^ d < (n + 1) * dint s"
        using s0 dividend_less_div_times [of "dint s" "dint q * 10 ^ d"]
        by (simp add: n_def algebra_simps)
      then have "(of_nat (dint q * 10 ^ d) :: rat) < of_nat ((n + 1) * dint s)"
        by (simp only: of_nat_less_iff)
      then have "(of_nat (dint q) * 10 ^ d :: rat) < (of_nat n + 1) * of_nat (dint s)"
        by (simp add: algebra_simps)
      then have "of_nat (dint q) * 10 ^ d * (10::rat) powi dexp s
                   < (of_nat n + 1) * of_nat (dint s) * 10 powi dexp s"
        by (rule mult_strict_right_mono) simp
      then have hi: "dec_val q < (of_nat n + 1) * dec_val s"
        by (simp add: vq vs e mult.assoc)
      from N lo hi show ?thesis by blast
    next
      case False
      define d where "d = nat (dexp s - dexp q)"
      define n where "n = dint q div (dint s * 10 ^ d)"
      have N: "N = Decimal False n 0"
        using fd q s s0 nz ed False
        by (simp add: dec_floordiv_def Let_def n_def d_def split: if_splits)
      have e: "(10::rat) powi dexp s = 10 ^ d * 10 powi dexp q"
        unfolding d_def using False by (intro powi_split) simp
      have "n * (dint s * 10 ^ d) \<le> dint q" by (simp add: n_def)
      then have "(of_nat (n * (dint s * 10 ^ d)) :: rat) \<le> of_nat (dint q)"
        by (simp only: of_nat_le_iff)
      then have "(of_nat n * (of_nat (dint s) * 10 ^ d) :: rat) \<le> of_nat (dint q)" by simp
      then have "of_nat n * (of_nat (dint s) * 10 ^ d) * 10 powi dexp q
                   \<le> of_nat (dint q) * (10::rat) powi dexp q"
        by (rule mult_right_mono) simp
      then have lo: "of_nat n * dec_val s \<le> dec_val q"
        by (simp add: vq vs e mult.assoc)
      have "dint q < (n + 1) * (dint s * 10 ^ d)"
        using s0 dividend_less_div_times [of "dint s * 10 ^ d" "dint q"]
        by (simp add: n_def algebra_simps)
      then have "(of_nat (dint q) :: rat) < of_nat ((n + 1) * (dint s * 10 ^ d))"
        by (simp only: of_nat_less_iff)
      then have "(of_nat (dint q) :: rat) < (of_nat n + 1) * (of_nat (dint s) * 10 ^ d)"
        by (simp add: algebra_simps)
      then have "of_nat (dint q) * (10::rat) powi dexp q
                   < (of_nat n + 1) * (of_nat (dint s) * 10 ^ d) * 10 powi dexp q"
        by (rule mult_strict_right_mono) simp
      then have hi: "dec_val q < (of_nat n + 1) * dec_val s"
        by (simp add: vq vs e mult.assoc)
      from N lo hi show ?thesis by blast
    qed
  qed
qed













section \<open>The confirm and cancel actions\<close>

text \<open>
  Claim C1. The claim: handling a confirm action whose pair matches the user's pending order
  removes the entry, whether the trade succeeds or fails, so that a second identical confirm
  finds no pending order. The code does not do this (\<open>confirm_leaves_pending\<close>): on the
  sample exchange, user 7 confirms the pending purchase of 0.002 BTC; the entry is still
  there afterwards, and the same confirm sent again places the order a second time.
\<close>

theorem confirm_keeps_pending_order:
  "pending_orders (handle_button sample_exchange 7 ''confirm_BTCUSDT'' world1) 7
     = Some sample_pending
   \<and> orders_sent (handle_button sample_exchange 7 ''confirm_BTCUSDT'' world1)
       = [OrderMarketBuy ''BTCUSDT'' (Decimal False 20 (- 4))]
   \<and> orders_sent (handle_button sample_exchange 7 ''confirm_BTCUSDT''
         (handle_button sample_exchange 7 ''confirm_BTCUSDT'' world1))
       = [OrderMarketBuy ''BTCUSDT'' (Decimal False 20 (- 4)),
          OrderMarketBuy ''BTCUSDT'' (Decimal False 20 (- 4))]"
  by (simp add: handle_button_def startswith_def world1_def sample_pending_def
        execute_trade_def check_symbol_rules_def sample_exchange_def sample_filters_def
        adjust_def dec_floordiv_def adjusted_def ndigits.simps prec_def dec_mul_def fix_dec_def
        quantize_def rescale_def dec_val_def order_call_def report_def sample_order_def
        orders_sent_def send_def request_def)

text \<open>
  Claim C3. A confirm action finds no pending order for the user, or one whose pair differs
  from the pair the action carries (\<open>data.split("_")[1]\<close>, which is the pair of the button
  whenever that has no underscore, \<open>split_confirm\<close>). Then the handler answers that the
  operation has expired, sends nothing to the exchange, and leaves the dictionary as it was.
\<close>

theorem confirm_without_match_expires:
  assumes "startswith data ''confirm_''"
    and "pending_orders w u = None
         \<or> (\<exists>od. pending_orders w u = Some od \<and> pair od \<noteq> split (CHR ''_'') data ! 1)"
  shows "replies (handle_button ex u data w) = replies w @ [Expired]
         \<and> calls (handle_button ex u data w) = calls w
         \<and> pending_orders (handle_button ex u data w) = pending_orders w"
  using assms by (auto simp: handle_button_def Let_def)

text \<open>
  On the sample exchange: user 7 holds a pending order for BTCUSDT and presses a button for
  ETHUSDC; and user 7 cancels, then confirms BTCUSDT.
\<close>

theorem confirm_without_match_expires_witness:
  "startswith ''confirm_ETHUSDC'' ''confirm_''
   \<and> (\<exists>od. pending_orders world1 7 = Some od
            \<and> pair od \<noteq> split (CHR ''_'') ''confirm_ETHUSDC'' ! 1)
   \<and> replies (handle_button sample_exchange 7 ''confirm_ETHUSDC'' world1) = [Expired]
   \<and> calls (handle_button sample_exchange 7 ''confirm_ETHUSDC'' world1) = []
   \<and> pending_orders (handle_button sample_exchange 7 ''cancel'' world1) 7 = None
   \<and> replies (handle_button sample_exchange 7 ''confirm_BTCUSDT''
                (handle_button sample_exchange 7 ''cancel'' world1)) = [Cancelled, Expired]
   \<and> calls (handle_button sample_exchange 7 ''confirm_BTCUSDT''
                (handle_button sample_exchange 7 ''cancel'' world1)) = []"
proof -
  have h1: "startswith ''confirm_ETHUSDC'' ''confirm_''"
    and h1': "startswith ''confirm_BTCUSDT'' ''confirm_''"
    by (simp_all add: startswith_def)
  have h2: "\<exists>od. pending_orders world1 7 = Some od
              \<and> pair od \<noteq> split (CHR ''_'') ''confirm_ETHUSDC'' ! 1"
    by (simp add: world1_def sample_pending_def)
  have h3: "pending_orders (handle_button sample_exchange 7 ''cancel'' world1) 7 = None"
    by (simp add: handle_button_def startswith_def)
  have h4: "replies (handle_button sample_exchange 7 ''cancel'' world1) = [Cancelled]"
    and h5: "calls (handle_button sample_exchange 7 ''cancel'' world1) = []"
    by (simp_all add: handle_button_def startswith_def world1_def)
  show ?thesis
    using confirm_without_match_expires [OF h1 disjI2 [OF h2], of sample_exchange]
          confirm_without_match_expires [OF h1' disjI1 [OF h3], of sample_exchange]
          h1 h2 h3 h4 h5
    by (simp add: world1_def)
qed

text \<open>
  Claim C6. The cancel action removes the pending order of the user who pressed it, whatever
  it is, reports the cancellation and sends nothing to the exchange. Where the user has no
  pending order the dictionary stays as it is, and a second cancel changes nothing more.
\<close>

theorem cancel_is_idempotent:
  "pending_orders (handle_button ex u ''cancel'' w) = (pending_orders w)(u := None)
   \<and> replies (handle_button ex u ''cancel'' w) = replies w @ [Cancelled]
   \<and> calls (handle_button ex u ''cancel'' w) = calls w
   \<and> (pending_orders w u = None \<longrightarrow>
        pending_orders (handle_button ex u ''cancel'' w) = pending_orders w)
   \<and> pending_orders (handle_button ex u ''cancel'' (handle_button ex u ''cancel'' w))
       = pending_orders (handle_button ex u ''cancel'' w)"
  by (auto simp: handle_button_def startswith_def)

theorem cancel_is_idempotent_witness:
  "pending_orders world0 7 = None
   \<and> pending_orders (handle_button sample_exchange 7 ''cancel'' world0) = pending_orders world0
   \<and> calls (handle_button sample_exchange 7 ''cancel'' world0) = []
   \<and> pending_orders (handle_button sample_exchange 7 ''cancel'' world1) 7 = None"
  using cancel_is_idempotent [of sample_exchange 7 world0]
        cancel_is_idempotent [of sample_exchange 7 world1]
  by (simp add: world0_def)

section \<open>The buy and sell commands: properties\<close>

lemma on_exception_fields [simp]:
  "pending_orders (on_exception e w) = pending_orders w"
  "calls (on_exception e w) = calls w"
  by (simp_all add: on_exception_def)

lemma record_and_prompt_pending:
  "pending_orders (record_and_prompt ex u p q b w)
     = (pending_orders w)(u \<mapsto> \<lparr>pair = p, quantity = q, is_buy = b\<rparr>)"
  by (simp add: record_and_prompt_def Let_def split: sum.splits)

lemma get_asset_balance_world:
  "snd (get_asset_balance ex a w) = request (GetAssetBalance a) w"
  by (simp add: get_asset_balance_def split: sum.splits)

lemma confirm_trade_buy_accepted:
  assumes "length args = 2" and "Decimal_str (args ! 0) = Inr amount"
    and "list_ex (endswith (upper (args ! 1))) stablecoins"
    and "get_symbol_ticker ex (calls w) (upper (args ! 1)) = Inr price"
    and "dec_truediv amount price = Inr q"
  shows "pending_orders (confirm_trade ex Decimal_str u args True w)
           = (pending_orders w)(u \<mapsto> \<lparr>pair = upper (args ! 1), quantity = q, is_buy = True\<rparr>)"
  using assms by (simp add: confirm_trade_def Let_def record_and_prompt_pending)

lemma confirm_trade_sell_accepted:
  assumes "length args = 2" and "Decimal_str (args ! 0) = Inr amount"
    and "list_ex (endswith (upper (args ! 1))) stablecoins"
    and "\<not> dec_val (fst (get_asset_balance ex (base_asset (upper (args ! 1))) w)) < dec_val amount"
  shows "pending_orders (confirm_trade ex Decimal_str u args False w)
           = (pending_orders w)(u \<mapsto> \<lparr>pair = upper (args ! 1), quantity = amount, is_buy = False\<rparr>)"
proof -
  obtain bal w1 where g: "get_asset_balance ex (base_asset (upper (args ! 1))) w = (bal, w1)"
    by (cases "get_asset_balance ex (base_asset (upper (args ! 1))) w")
  have "w1 = request (GetAssetBalance (base_asset (upper (args ! 1)))) w"
    using get_asset_balance_world [of ex "base_asset (upper (args ! 1))" w] g by simp
  then show ?thesis
    using assms g by (simp add: confirm_trade_def Let_def record_and_prompt_pending)
qed

text \<open>
  Claim C4. The dictionary holds at most one pending order for a user: after any command,
  a second buy or sell command of the same user that passes the checks (two arguments, an
  amount that converts, a supported pair, a price for a purchase or a sufficient balance for
  a sale) overwrites the user's entry with the order of this second command, whatever the
  first command left, and touches no other user's entry.
\<close>

theorem last_request_wins:
  assumes "length args = 2" and "Decimal_str (args ! 0) = Inr amount"
    and "list_ex (endswith (upper (args ! 1))) stablecoins"
    and "if b
         then \<exists>price. get_symbol_ticker ex (calls (confirm_trade ex Decimal_str u args0 b0 w))
                         (upper (args ! 1)) = Inr price
                      \<and> dec_truediv amount price = Inr q
         else \<not> dec_val (fst (get_asset_balance ex (base_asset (upper (args ! 1)))
                                (confirm_trade ex Decimal_str u args0 b0 w))) < dec_val amount
              \<and> q = amount"
  shows "pending_orders (confirm_trade ex Decimal_str u args b
            (confirm_trade ex Decimal_str u args0 b0 w))
           = (pending_orders (confirm_trade ex Decimal_str u args0 b0 w))
               (u \<mapsto> \<lparr>pair = upper (args ! 1), quantity = q, is_buy = b\<rparr>)"
proof (cases b)
  case True
  with assms show ?thesis by (auto simp: confirm_trade_buy_accepted)
next
  case False
  with assms show ?thesis by (auto simp: confirm_trade_sell_accepted)
qed

text \<open>
  Claim C5. A sell command whose amount is greater than the free balance of the base asset
  is answered with the insufficient-balance message; the dictionary is unchanged, and the
  only request to the exchange is the balance lookup, so no order reaches it.
\<close>

theorem sell_beyond_balance_rejected:
  assumes "length args = 2" and "Decimal_str (args ! 0) = Inr amount"
    and "list_ex (endswith (upper (args ! 1))) stablecoins"
    and "get_asset_balance ex (base_asset (upper (args ! 1))) w = (balance, w1)"
    and "dec_val balance < dec_val amount"
  shows "replies (sell_command ex Decimal_str u args w)
           = replies w @ [InsufficientBalance balance (base_asset (upper (args ! 1)))]
         \<and> pending_orders (sell_command ex Decimal_str u args w) = pending_orders w
         \<and> calls (sell_command ex Decimal_str u args w)
             = calls w @ [GetAssetBalance (base_asset (upper (args ! 1)))]
         \<and> orders_sent (sell_command ex Decimal_str u args w) = orders_sent w"
  using assms get_asset_balance_world [of ex "base_asset (upper (args ! 1))" w]
  by (simp add: sell_command_def confirm_trade_def Let_def orders_sent_def)

text \<open>
  Claim C10. When the lookup of the free balance fails, \<open>get_asset_balance\<close> returns zero,
  so a sell command with a positive amount is answered with the insufficient-balance
  message, which shows an available balance of zero, and not with an error message; no
  pending order is recorded.
\<close>

theorem failed_balance_lookup_rejects_sale:
  assumes "client_get_asset_balance ex (calls w) (base_asset (upper (args ! 1))) = Inl e"
    and "length args = 2" and "Decimal_str (args ! 0) = Inr amount"
    and "list_ex (endswith (upper (args ! 1))) stablecoins"
    and "0 < dec_val amount"
  shows "fst (get_asset_balance ex (base_asset (upper (args ! 1))) w) = Decimal False 0 0
         \<and> replies (sell_command ex Decimal_str u args w)
             = replies w @ [InsufficientBalance (Decimal False 0 0) (base_asset (upper (args ! 1)))]
         \<and> pending_orders (sell_command ex Decimal_str u args w) = pending_orders w"
  using assms
  by (simp add: sell_command_def confirm_trade_def Let_def get_asset_balance_def dec_val_def)

text \<open>
  Claim C7. A buy or sell command whose pair, in upper case, ends neither in USDT nor in
  USDC is rejected before any request to the exchange and records no pending order: the
  answer is the unsupported-pair message when the amount converts, and the message of the
  failed conversion otherwise (the amount is converted before the pair is checked).
\<close>

theorem unsupported_pair_rejected:
  assumes "length args = 2"
    and "\<not> list_ex (endswith (upper (args ! 1))) stablecoins"
  shows "calls (confirm_trade ex Decimal_str u args b w) = calls w
         \<and> pending_orders (confirm_trade ex Decimal_str u args b w) = pending_orders w
         \<and> replies (confirm_trade ex Decimal_str u args b w)
             = replies w @ [case Decimal_str (args ! 0) of
                              Inr amount \<Rightarrow> UnsupportedPair
                            | Inl e \<Rightarrow> if e = ValueError then InvalidAmount else ErrorReply e]"
  using assms by (simp add: confirm_trade_def Let_def on_exception_def split: sum.splits)


lemma upper_samples:
  "upper ''ETHUSDC'' = ''ETHUSDC''" "upper ''btcusdt'' = ''BTCUSDT''"
  "upper ''BTCUSDT'' = ''BTCUSDT''" "upper ''BTCETH'' = ''BTCETH''"
  by (simp_all add: upper_def upper_char_def)

lemma supported_samples:
  "list_ex (endswith ''ETHUSDC'') stablecoins" "list_ex (endswith ''BTCUSDT'') stablecoins"
  "\<not> list_ex (endswith ''BTCETH'') stablecoins"
  by (simp_all add: stablecoins_def endswith_def)

text \<open>Line 191 removes every occurrence of both codes: a pair of two stablecoins has no asset left.\<close>

lemma base_asset_samples:
  "base_asset ''ETHUSDC'' = ''ETH''" "base_asset ''BTCUSDT'' = ''BTC''"
  "base_asset ''USDCUSDT'' = []"
  by (simp_all add: base_asset_def startswith_def)

theorem sell_beyond_balance_rejected_witness:
  "length [''0.5'', ''ETHUSDC''] = 2
   \<and> sample_Decimal ([''0.5'', ''ETHUSDC''] ! 0) = Inr (Decimal False 5 (- 1))
   \<and> dec_val (Decimal False 3 (- 1)) < dec_val (Decimal False 5 (- 1))
   \<and> replies (sell_command sample_exchange sample_Decimal 7 [''0.5'', ''ETHUSDC''] world0)
       = [InsufficientBalance (Decimal False 3 (- 1)) ''ETH'']
   \<and> pending_orders (sell_command sample_exchange sample_Decimal 7 [''0.5'', ''ETHUSDC''] world0) 7
       = None
   \<and> calls (sell_command sample_exchange sample_Decimal 7 [''0.5'', ''ETHUSDC''] world0)
       = [GetAssetBalance ''ETH'']"
proof -
  let ?args = "[''0.5'', ''ETHUSDC'']"
  have a1: "length ?args = 2" by simp
  have a2: "sample_Decimal (?args ! 0) = Inr (Decimal False 5 (- 1))"
    by (simp add: sample_Decimal_def)
  have a3: "list_ex (endswith (upper (?args ! 1))) stablecoins"
    by (simp add: upper_samples supported_samples)
  have a4: "get_asset_balance sample_exchange (base_asset (upper (?args ! 1))) world0
              = (Decimal False 3 (- 1), request (GetAssetBalance ''ETH'') world0)"
    by (simp add: upper_samples base_asset_samples get_asset_balance_def sample_exchange_def)
  have a5: "dec_val (Decimal False 3 (- 1)) < dec_val (Decimal False 5 (- 1))"
    by (simp add: dec_val_def)
  show ?thesis
    using sell_beyond_balance_rejected [where args = ?args and Decimal_str = sample_Decimal and u = 7, OF a1 a2 a3 a4 a5] a1 a2 a5
    by (simp add: upper_samples base_asset_samples world0_def)
qed

theorem failed_balance_lookup_rejects_sale_witness:
  "client_get_asset_balance sample_exchange (calls world0) ''BTC'' = Inl OtherException
   \<and> sample_Decimal ([''0.1'', ''BTCUSDT''] ! 0) = Inr (Decimal False 1 (- 1))
   \<and> 0 < dec_val (Decimal False 1 (- 1))
   \<and> fst (get_asset_balance sample_exchange ''BTC'' world0) = Decimal False 0 0
   \<and> replies (sell_command sample_exchange sample_Decimal 7 [''0.1'', ''BTCUSDT''] world0)
       = [InsufficientBalance (Decimal False 0 0) ''BTC'']
   \<and> pending_orders (sell_command sample_exchange sample_Decimal 7 [''0.1'', ''BTCUSDT''] world0) 7
       = None"
proof -
  let ?args = "[''0.1'', ''BTCUSDT'']"
  have a1: "client_get_asset_balance sample_exchange (calls world0)
              (base_asset (upper (?args ! 1))) = Inl OtherException"
    by (simp add: upper_samples base_asset_samples sample_exchange_def)
  have a2: "length ?args = 2" by simp
  have a3: "sample_Decimal (?args ! 0) = Inr (Decimal False 1 (- 1))"
    by (simp add: sample_Decimal_def)
  have a4: "list_ex (endswith (upper (?args ! 1))) stablecoins"
    by (simp add: upper_samples supported_samples)
  have a5: "0 < dec_val (Decimal False 1 (- 1))"
    by (simp add: dec_val_def)
  show ?thesis
    using failed_balance_lookup_rejects_sale [where args = ?args and Decimal_str = sample_Decimal and u = 7, OF a1 a2 a3 a4 a5] a1 a3 a5
    by (simp add: upper_samples base_asset_samples world0_def)
qed

theorem unsupported_pair_rejected_witness:
  "length [''100'', ''BTCETH''] = 2
   \<and> \<not> list_ex (endswith (upper ([''100'', ''BTCETH''] ! 1))) stablecoins
   \<and> calls (confirm_trade sample_exchange sample_Decimal 7 [''100'', ''BTCETH''] True world0) = []
   \<and> pending_orders (confirm_trade sample_exchange sample_Decimal 7 [''100'', ''BTCETH''] True world0) 7
       = None
   \<and> replies (confirm_trade sample_exchange sample_Decimal 7 [''100'', ''BTCETH''] True world0)
       = [UnsupportedPair]"
proof -
  let ?args = "[''100'', ''BTCETH'']"
  have a1: "length ?args = 2" by simp
  have a2: "\<not> list_ex (endswith (upper (?args ! 1))) stablecoins"
    by (simp add: upper_samples supported_samples)
  show ?thesis
    using unsupported_pair_rejected [where args = ?args and Decimal_str = sample_Decimal and u = 7 and ex = sample_exchange and b = True and w = world0, OF a1 a2] a1 a2
    by (simp add: sample_Decimal_def world0_def)
qed

theorem last_request_wins_witness:
  "length [''100'', ''btcusdt''] = 2
   \<and> sample_Decimal ([''100'', ''btcusdt''] ! 0) = Inr (Decimal False 100 0)
   \<and> list_ex (endswith (upper ([''100'', ''btcusdt''] ! 1))) stablecoins
   \<and> pending_orders (sell_command sample_exchange sample_Decimal 7 [''0.1'', ''ETHUSDC''] world0) 7
       = Some \<lparr>pair = ''ETHUSDC'', quantity = Decimal False 1 (- 1), is_buy = False\<rparr>
   \<and> pending_orders
        (confirm_trade sample_exchange sample_Decimal 7 [''100'', ''btcusdt''] True
           (confirm_trade sample_exchange sample_Decimal 7 [''0.1'', ''ETHUSDC''] False world0)) 7
       = Some \<lparr>pair = ''BTCUSDT'', quantity = Decimal False 2 (- 3), is_buy = True\<rparr>"
proof -
  let ?args = "[''100'', ''btcusdt'']"
  let ?w1 = "confirm_trade sample_exchange sample_Decimal 7 [''0.1'', ''ETHUSDC''] False world0"
  have a1: "length ?args = 2" by simp
  have a2: "sample_Decimal (?args ! 0) = Inr (Decimal False 100 0)"
    by (simp add: sample_Decimal_def)
  have a3: "list_ex (endswith (upper (?args ! 1))) stablecoins"
    by (simp add: upper_samples supported_samples)
  have d: "dec_truediv (Decimal False 100 0) (Decimal False 50000 0) = Inr (Decimal False 2 (- 3))"
    by (simp add: dec_truediv_def fix_dec_def ndigits.simps prec_def reduce_exact.simps)
  have a4: "if True
            then \<exists>price. get_symbol_ticker sample_exchange (calls ?w1) (upper (?args ! 1)) = Inr price
                     \<and> dec_truediv (Decimal False 100 0) price = Inr (Decimal False 2 (- 3))
            else \<not> dec_val (fst (get_asset_balance sample_exchange
                                   (base_asset (upper (?args ! 1))) ?w1))
                     < dec_val (Decimal False 100 0)
                 \<and> Decimal False 2 (- 3) = Decimal False 100 0"
    using d by (simp add: upper_samples sample_exchange_def)
  have b1: "length [''0.1'', ''ETHUSDC''] = 2" by simp
  have b2: "sample_Decimal ([''0.1'', ''ETHUSDC''] ! 0) = Inr (Decimal False 1 (- 1))"
    by (simp add: sample_Decimal_def)
  have b3: "list_ex (endswith (upper ([''0.1'', ''ETHUSDC''] ! 1))) stablecoins"
    by (simp add: upper_samples supported_samples)
  have b4: "\<not> dec_val (fst (get_asset_balance sample_exchange
                (base_asset (upper ([''0.1'', ''ETHUSDC''] ! 1))) world0))
              < dec_val (Decimal False 1 (- 1))"
    by (simp add: upper_samples base_asset_samples get_asset_balance_def sample_exchange_def
          dec_val_def)
  have first: "pending_orders (sell_command sample_exchange sample_Decimal 7 [''0.1'', ''ETHUSDC''] world0) 7
       = Some \<lparr>pair = ''ETHUSDC'', quantity = Decimal False 1 (- 1), is_buy = False\<rparr>"
    using confirm_trade_sell_accepted [where args = "[''0.1'', ''ETHUSDC'']" and Decimal_str = sample_Decimal and u = 7, OF b1 b2 b3 b4]
    by (simp add: sell_command_def upper_samples)
  show ?thesis
    using last_request_wins [where args = ?args and Decimal_str = sample_Decimal and u = 7 and b = True, OF a1 a2 a3 a4] a1 a2 a3 first
    by (simp add: upper_samples)
qed

section \<open>The quantity of a purchase\<close>










section \<open>The valuation of the balances\<close>





section \<open>The adjustment of the quantity\<close>

text \<open>A product that had to be rounded cannot be written with the digits of the step size.\<close>

lemma quantize_after_rounding:
  assumes "prec < ndigits c"
  shows "quantize (fix_dec (Decimal sg c e)) (Decimal False 1 (- int (nat \<bar>e\<bar>)))
           = Inl InvalidOperation"
proof -
  from fix_dec_rounded [of "Decimal sg c e"] assms
  have x: "dint (fix_dec (Decimal sg c e)) \<noteq> 0"
    "ndigits (dint (fix_dec (Decimal sg c e))) = prec"
    "e < dexp (fix_dec (Decimal sg c e))"
    by simp_all
  then have "int prec < adjusted (fix_dec (Decimal sg c e)) + int (nat \<bar>e\<bar>) + 1"
    by (simp add: adjusted_def)
  with x(1) show ?thesis by (simp add: quantize_def)
qed

text \<open>
  What lines 141 to 146 return when they return a quantity: for a quantity that is not
  negative and a positive step size, the greatest multiple of the step size that is at
  most the quantity, and it is at least the minimum.
\<close>

lemma adjust_returns_truncated_multiple:
  assumes a: "adjust q r = Inr a" and q: "\<not> dsign q"
    and s: "\<not> dsign (step_size r)" and s0: "dint (step_size r) \<noteq> 0"
  shows "\<exists>n::nat. dec_val a = of_nat n * dec_val (step_size r)
            \<and> dec_val a \<le> dec_val q
            \<and> dec_val q < dec_val a + dec_val (step_size r)
            \<and> dec_val (min_qty r) \<le> dec_val a"
proof -
  define S where "S = step_size r"
  define p where "p = nat \<bar>dexp S\<bar>"
  from a obtain N where fd: "dec_floordiv q S = Inr N"
    and qz: "quantize (dec_mul N S) (Decimal False 1 (- int p)) = Inr a"
    and ge: "\<not> dec_val a < dec_val (min_qty r)"
    by (auto simp: adjust_def Let_def S_def p_def split: sum.splits if_splits)
  from floordiv_bounds [OF q _ _ fd] s s0
  obtain n where N: "N = Decimal False n 0"
    and lo: "of_nat n * dec_val S \<le> dec_val q"
    and hi: "dec_val q < (of_nat n + 1) * dec_val S"
    by (auto simp: S_def)
  define c where "c = n * dint S"
  have m: "dec_mul N S = fix_dec (Decimal False c (dexp S))"
    using s by (simp add: dec_mul_def N c_def S_def)
  have small: "ndigits c \<le> prec"
  proof (rule ccontr)
    assume "\<not> ndigits c \<le> prec"
    then have "prec < ndigits c" by simp
    then have "quantize (dec_mul N S) (Decimal False 1 (- int p)) = Inl InvalidOperation"
      unfolding m p_def by (rule quantize_after_rounding)
    with qz show False by simp
  qed
  then have m': "dec_mul N S = Decimal False c (dexp S)"
    by (simp add: m fix_dec_small)
  have vS: "dec_val S = of_nat (dint S) * 10 powi dexp S"
    using s by (simp add: dec_val_nonneg S_def)
  have va: "dec_val a = of_nat c * 10 powi dexp S"
  proof (cases "c = 0")
    case True
    with qz have "a = Decimal False 0 (- int p)"
      by (simp add: m' quantize_def fix_dec_zero)
    with True show ?thesis by (simp add: dec_val_powi)
  next
    case False
    have le: "- int p \<le> dexp S" by (simp add: p_def)
    define c' where "c' = c * 10 ^ nat (dexp S + int p)"
    have rs: "rescale (Decimal False c (dexp S)) (- int p) = Decimal False c' (- int p)"
      using False le by (simp add: rescale_def c'_def)
    from qz False have d: "\<not> prec < ndigits c'" and a': "a = fix_dec (Decimal False c' (- int p))"
      by (auto simp: m' quantize_def rs Let_def split: if_splits)
    from d a' have "a = Decimal False c' (- int p)" by (simp add: fix_dec_small)
    then have "dec_val a = of_nat c * (10 ^ nat (dexp S + int p) * 10 powi (- int p))"
      by (simp add: dec_val_powi c'_def)
    also have "10 ^ nat (dexp S + int p) * 10 powi (- int p) = (10::rat) powi dexp S"
      using powi_split [OF le] by simp
    finally show ?thesis .
  qed
  then have mult: "dec_val a = of_nat n * dec_val S"
    by (simp add: c_def vS)
  from mult lo hi ge show ?thesis
    unfolding S_def by (intro exI [of _ n]) (simp add: algebra_simps)
qed

text \<open>Otherwise the quantity is too small, or a decimal operation raised.\<close>

lemma adjust_failures:
  "adjust q r = Inl err \<Longrightarrow> err = QuantityTooSmall (min_qty r) \<or> (\<exists>e. err = OtherError e)"
  by (auto simp: adjust_def Let_def split: sum.splits if_splits)

text \<open>
  Claim C2. The claim: for positive quantity, step size and minimum, the adjustment gives
  a multiple of the step size that is at most the quantity, and either this is at least the
  minimum or the operation fails with the quantity-too-small error. The code misses it
  where the exchange writes the step size with eight decimals, \<open>0.00010000\<close>: for the
  quantity 1.5 the product \<open>15000 * 0.00010000\<close> is \<open>1.5000000\<close> at eight digits, and
  \<open>quantize\<close> to eight decimals needs nine digits and raises. The operation ends with the
  generic error; it neither returns 1.5 nor reports a quantity that is too small, although
  1.5 is a multiple of the step size above the minimum. Where the adjustment does return a
  quantity, the quantity is as the claim says (\<open>adjust_returns_truncated_multiple\<close>).
\<close>

theorem adjust_raises_on_eight_decimal_step:
  "adjust (Decimal False 15 (- 1))
       \<lparr>min_qty = Decimal False 10000 (- 8), step_size = Decimal False 10000 (- 8)\<rparr>
     = Inl (OtherError InvalidOperation)
   \<and> execute_trade sample_exchange8 ''ETHUSDC'' (Decimal False 15 (- 1)) False world0
       = (Inl (OtherError InvalidOperation), request (GetSymbolInfo ''ETHUSDC'') world0)
   \<and> dec_val (Decimal False 15 (- 1)) = 15000 * dec_val (Decimal False 10000 (- 8))
   \<and> dec_val (Decimal False 10000 (- 8)) \<le> dec_val (Decimal False 15 (- 1))"
  by (simp add: execute_trade_def check_symbol_rules_def sample_exchange8_def
        sample_exchange_def sample_filters_def
        adjust_def dec_floordiv_def adjusted_def ndigits.simps prec_def dec_mul_def fix_dec_def
        round_half_even_def quantize_def rescale_def dec_val_def Let_def)

end
